theory Spec2Isabelle
  imports Main "HOL-Library.Sublist"
begin

section \<open>Python strings\<close>

text \<open>
  A Python \<open>str\<close> is a sequence of Unicode code points, so it is modelled as a list of
  natural numbers. \<open>codes\<close> turns an ASCII literal into its code points; characters the
  source writes outside ASCII (newline, quotes, emoji) appear as numbers.
\<close>

type_synonym pystr = "nat list"

definition codes :: "string \<Rightarrow> pystr" where
  "codes cs = map of_char cs"

text \<open>\<open>str.isspace\<close> on one code point: the whitespace set of CPython 3, which both
  \<open>str.split()\<close> and the class \<open>\s\<close> of \<open>re\<close> use.\<close>

definition isspace :: "nat \<Rightarrow> bool" where
  "isspace c \<longleftrightarrow>
     (9 \<le> c \<and> c \<le> 13) \<or> (28 \<le> c \<and> c \<le> 32) \<or> c = 133 \<or> c = 160 \<or> c = 5760 \<or>
     (8192 \<le> c \<and> c \<le> 8202) \<or> c = 8232 \<or> c = 8233 \<or> c = 8239 \<or> c = 8287 \<or> c = 12288"

text \<open>\<open>s.replace(old, new)\<close>: the occurrences of \<open>old\<close> are found from the left and do not
  overlap. An empty \<open>old\<close> matches before every character and at the end.\<close>

function replace_scan :: "pystr \<Rightarrow> pystr \<Rightarrow> pystr \<Rightarrow> pystr" where
  "replace_scan [] old new = []"
| "replace_scan (c # cs) old new =
     (if old \<noteq> [] \<and> prefix old (c # cs)
      then new @ replace_scan (drop (length old) (c # cs)) old new
      else c # replace_scan cs old new)"
  by pat_completeness auto
termination
  by (relation "measure (\<lambda>(s, old, new). length s)") (auto simp: neq_Nil_conv)

definition replace :: "pystr \<Rightarrow> pystr \<Rightarrow> pystr \<Rightarrow> pystr" where
  "replace s old new =
     (if old = [] then new @ concat (map (\<lambda>c. c # new) s) else replace_scan s old new)"

text \<open>\<open>old in s\<close>: \<open>old\<close> occurs in \<open>s\<close> as a contiguous substring.\<close>

fun contains :: "pystr \<Rightarrow> pystr \<Rightarrow> bool" where
  "contains [] old = (old = [])"
| "contains (c # cs) old = (prefix old (c # cs) \<or> contains cs old)"

text \<open>\<open>s.split()\<close> without a separator: runs of whitespace separate the tokens, and
  whitespace at either end yields no empty token.\<close>

function str_split :: "pystr \<Rightarrow> pystr list" where
  "str_split s =
     (let rest = dropWhile isspace s
      in if rest = [] then []
         else takeWhile (\<lambda>c. \<not> isspace c) rest #
              str_split (dropWhile (\<lambda>c. \<not> isspace c) rest))"
  by pat_completeness auto
termination
proof -
  have step: "length (dropWhile (\<lambda>c. \<not> isspace c) (dropWhile isspace s)) < length s"
    if ne: "dropWhile isspace s \<noteq> []" for s :: pystr
  proof -
    from ne obtain x xs where r: "dropWhile isspace s = x # xs"
      by (cases "dropWhile isspace s") auto
    from ne have "\<not> isspace (hd (dropWhile isspace s))"
      by (rule hd_dropWhile)
    with r have "dropWhile (\<lambda>c. \<not> isspace c) (dropWhile isspace s) = dropWhile (\<lambda>c. \<not> isspace c) xs"
      by simp
    moreover have "length (dropWhile (\<lambda>c. \<not> isspace c) xs) \<le> length xs"
      by (rule length_dropWhile_le)
    moreover have "length (x # xs) \<le> length s"
      unfolding r [symmetric] by (rule length_dropWhile_le)
    ultimately show ?thesis
      by simp
  qed
  show ?thesis
    by (relation "measure length") (simp_all add: step)
qed

declare str_split.simps [simp del]

text \<open>\<open>str(n)\<close> for a count, as the f-strings format it.\<close>

function str_nat :: "nat \<Rightarrow> pystr" where
  "str_nat n = (if n < 10 then [48 + n] else str_nat (n div 10) @ [48 + n mod 10])"
  by pat_completeness auto
termination
  by (relation "measure id") auto

declare str_nat.simps [simp del]

section \<open>Exceptions, contacts, console\<close>

text \<open>The exceptions the two scripts tell apart; \<open>Exception\<close> stands for any other
  exception. The argument is the message that \<open>str(e)\<close> returns.\<close>

datatype exn = FileNotFoundError pystr | IndexError | TypeError pystr | HttpError pystr | Exception pystr

fun str_exn :: "exn \<Rightarrow> pystr" where
  "str_exn (FileNotFoundError m) = m"
| "str_exn IndexError = codes ''list index out of range''"
| "str_exn (TypeError m) = m"
| "str_exn (HttpError m) = m"
| "str_exn (Exception m) = m"

text \<open>\<open>xs[0]\<close> raises IndexError on the empty list.\<close>

definition item0 :: "'a list \<Rightarrow> exn + 'a" where
  "item0 xs = (case xs of [] \<Rightarrow> Inl IndexError | x # _ \<Rightarrow> Inr x)"

text \<open>A contact is one row of \<open>csv.DictReader\<close>: a dictionary from the column names of
  the header to the values of the row. A value is a string, or \<open>None\<close> for a column that a
  row shorter than the header does not reach.\<close>

datatype pyval = Str pystr | PyNone

type_synonym contact = "pystr \<rightharpoonup> pyval"

definition dict_get :: "contact \<Rightarrow> pystr \<Rightarrow> pyval \<Rightarrow> pyval" where
  "dict_get d k dflt = (case d k of None \<Rightarrow> dflt | Some v \<Rightarrow> v)"

text \<open>The truth value of a field, as \<open>if full_name\<close> and \<open>if not email\<close> take it: \<open>None\<close> and
  the empty string are false.\<close>

definition truthy :: "pyval \<Rightarrow> bool" where
  "truthy v = (case v of Str s \<Rightarrow> s \<noteq> [] | PyNone \<Rightarrow> False)"

text \<open>The string of a field that is true, hence a string.\<close>

definition str_of :: "pyval \<Rightarrow> pystr" where
  "str_of v = (case v of Str s \<Rightarrow> s | PyNone \<Rightarrow> [])"

text \<open>A field inside an f-string: \<open>None\<close> is printed as its name.\<close>

definition format_val :: "pyval \<Rightarrow> pystr" where
  "format_val v = (case v of Str s \<Rightarrow> s | PyNone \<Rightarrow> codes ''None'')"

text \<open>\<open>s.replace(old, new)\<close> where \<open>new\<close> is a field: \<open>str.replace\<close> refuses \<open>None\<close> with a
  TypeError.\<close>

definition replace_field :: "pystr \<Rightarrow> pystr \<Rightarrow> pyval \<Rightarrow> exn + pystr" where
  "replace_field s old new =
     (case new of
        Str n \<Rightarrow> Inr (replace s old n)
      | PyNone \<Rightarrow> Inl (TypeError (codes ''replace() argument 2 must be str, not None'')))"

text \<open>The state a run threads through: the mail account behind the network (\<open>world\<close>)
  and the lines printed so far.\<close>

record 'w io =
  world :: 'w
  stdout :: "pystr list"

definition print :: "pystr \<Rightarrow> 'w io \<Rightarrow> 'w io" where
  "print line st = st\<lparr>stdout := stdout st @ [line]\<rparr>"

text \<open>The two input files. \<open>read_text f\<close> is the outcome of opening and reading \<open>f\<close>,
  \<open>read_csv f\<close> that of opening \<open>f\<close> and collecting the rows of its \<open>DictReader\<close>.\<close>

record files =
  read_text :: "pystr \<Rightarrow> exn + pystr"
  read_csv :: "pystr \<Rightarrow> exn + contact list"

definition load_template :: "files \<Rightarrow> pystr \<Rightarrow> exn + pystr" where
  "load_template fs template_file =
     (case read_text fs template_file of
        Inl (FileNotFoundError m) \<Rightarrow>
          Inl (FileNotFoundError (codes ''Template file '' @ [39] @ template_file @ [39] @ codes '' not found''))
      | Inl e \<Rightarrow> Inl e
      | Inr text \<Rightarrow> Inr text)"

definition load_contacts :: "files \<Rightarrow> pystr \<Rightarrow> exn + contact list" where
  "load_contacts fs contacts_file =
     (case read_csv fs contacts_file of
        Inl (FileNotFoundError m) \<Rightarrow>
          Inl (FileNotFoundError (codes ''Contacts file '' @ [39] @ contacts_file @ [39] @ codes '' not found''))
      | Inl e \<Rightarrow> Inl e
      | Inr contacts \<Rightarrow> Inr contacts)"

section \<open>main.py: drafts through the remote API\<close>

definition process_template :: "pystr \<Rightarrow> contact \<Rightarrow> exn + pystr" where
  "process_template template contact =
     (let full_name = dict_get contact (codes ''name'') (dict_get contact (codes ''Name'') (Str []))
      in case (if truthy full_name then item0 (str_split (str_of full_name)) else Inr []) of
           Inl e \<Rightarrow> Inl e
         | Inr first_name \<Rightarrow> Inr (replace template (codes ''%name%'') first_name))"

text \<open>The pattern \<open>(https?://[^\s<>"]+)\<close> tried at the start of a string: the text it
  matches, if it matches. The class is greedy and nothing follows it, so the match runs
  to the first excluded character.\<close>

definition url_char :: "nat \<Rightarrow> bool" where
  "url_char c \<longleftrightarrow> \<not> isspace c \<and> c \<noteq> 60 \<and> c \<noteq> 62 \<and> c \<noteq> 34"

definition match_after :: "pystr \<Rightarrow> pystr \<Rightarrow> pystr option" where
  "match_after scheme rest =
     (let run = takeWhile url_char rest in if run = [] then None else Some (scheme @ run))"

definition url_pattern_match :: "pystr \<Rightarrow> pystr option" where
  "url_pattern_match s =
     (if prefix (codes ''https://'') s then match_after (codes ''https://'') (drop 8 s)
      else if prefix (codes ''http://'') s then match_after (codes ''http://'') (drop 7 s)
      else None)"

text \<open>\<open>re.sub(url_pattern, r'<a href="\1">\1</a>', html)\<close>: the matches are taken from the
  left, and the search resumes behind each match.\<close>

definition anchor :: "pystr \<Rightarrow> pystr" where
  "anchor m = codes ''<a href='' @ [34] @ m @ [34] @ codes ''>'' @ m @ codes ''</a>''"

function re_sub_url :: "pystr \<Rightarrow> pystr" where
  "re_sub_url [] = []"
| "re_sub_url (c # cs) =
     (case url_pattern_match (c # cs) of
        Some m \<Rightarrow> anchor m @ re_sub_url (drop (length m) (c # cs))
      | None \<Rightarrow> c # re_sub_url cs)"
  by pat_completeness auto
termination
  by (relation "measure length")
     (auto simp: url_pattern_match_def match_after_def codes_def Let_def split: if_splits)

definition convert_to_html :: "pystr \<Rightarrow> pystr" where
  "convert_to_html text =
     (let html = replace text [10] (codes ''<br>'' @ [10]);
          html = re_sub_url html
      in [10] @ codes ''        <html>'' @ [10] @ codes ''        <body>'' @ [10] @ codes ''        ''
         @ html
         @ [10] @ codes ''        </body>'' @ [10] @ codes ''        </html>'' @ [10] @ codes ''        '')"

text \<open>The message handed to the API: recipient, subject and the HTML part. Encoding it
  and calling \<open>drafts().create(...).execute()\<close> is the service: it returns the id of the
  draft or raises, and changes the account.\<close>

record message =
  msg_to :: pystr
  msg_subject :: pystr
  msg_html :: pystr

type_synonym 'w service = "'w \<Rightarrow> message \<Rightarrow> (exn + pystr) \<times> 'w"

definition create_draft :: "'w service \<Rightarrow> pystr \<Rightarrow> pystr \<Rightarrow> pystr \<Rightarrow> 'w io \<Rightarrow> (exn + bool) \<times> 'w io" where
  "create_draft service to_email subject body st =
     (let html_body = convert_to_html body;
          (result, w) = service (world st) \<lparr>msg_to = to_email, msg_subject = subject, msg_html = html_body\<rparr>;
          st = st\<lparr>world := w\<rparr>
      in case result of
           Inr draft_id \<Rightarrow>
             (Inr True, print (codes ''Draft created successfully for '' @ to_email @ codes '' (ID: '' @ draft_id @ codes '')'') st)
         | Inl (HttpError m) \<Rightarrow>
             (Inr False, print (codes ''An error occurred creating draft for '' @ to_email @ codes '': '' @ m) st)
         | Inl e \<Rightarrow> (Inl e, st))"

text \<open>The \<open>for\<close> loop of \<open>create_drafts_for_contacts\<close>, with the running
  \<open>success_count\<close>. An exception leaves the loop.\<close>

fun contacts_loop :: "'w service \<Rightarrow> pystr \<Rightarrow> pystr \<Rightarrow> contact list \<Rightarrow> nat \<Rightarrow> 'w io \<Rightarrow> (exn + nat) \<times> 'w io" where
  "contacts_loop service template subject_template [] success_count st = (Inr success_count, st)"
| "contacts_loop service template subject_template (contact # rest) success_count st =
     (let name = dict_get contact (codes ''name'') (dict_get contact (codes ''Name'') (Str []));
          email = dict_get contact (codes ''email'') (dict_get contact (codes ''Email'') (Str []))
      in if \<not> truthy email
         then contacts_loop service template subject_template rest success_count
                (print (codes ''Warning: No email found for contact '' @ format_val name) st)
         else case process_template template contact of
                Inl e \<Rightarrow> (Inl e, st)
              | Inr processed_body \<Rightarrow>
                  (case replace_field subject_template (codes ''%name%'') name of
                     Inl e \<Rightarrow> (Inl e, st)
                   | Inr processed_subject \<Rightarrow>
                       (case create_draft service (str_of email) processed_subject processed_body st of
                          (Inl e, st') \<Rightarrow> (Inl e, st')
                        | (Inr created, st') \<Rightarrow>
                            contacts_loop service template subject_template rest
                              (if created then success_count + 1 else success_count) st')))"

definition create_drafts_for_contacts ::
    "'w service \<Rightarrow> files \<Rightarrow> pystr \<Rightarrow> pystr \<Rightarrow> pystr \<Rightarrow> 'w io \<Rightarrow> 'w io" where
  "create_drafts_for_contacts service fs template_file contacts_file subject_template st =
     (case load_template fs template_file of
        Inl e \<Rightarrow> print (codes ''Error: '' @ str_exn e) st
      | Inr template \<Rightarrow>
          (case load_contacts fs contacts_file of
             Inl e \<Rightarrow> print (codes ''Error: '' @ str_exn e) st
           | Inr contacts \<Rightarrow>
               (let st = print (codes ''Loaded template from '' @ template_file) st;
                    st = print (codes ''Loaded '' @ str_nat (length contacts) @ codes '' contacts from '' @ contacts_file) st
                in case contacts_loop service template subject_template contacts 0 st of
                     (Inl e, st') \<Rightarrow> print (codes ''Error: '' @ str_exn e) st'
                   | (Inr success_count, st') \<Rightarrow>
                       print ([10] @ codes ''Completed! Created '' @ str_nat success_count
                              @ codes '' drafts out of '' @ str_nat (length contacts) @ codes '' contacts.'') st')))"

text \<open>\<open>authenticate\<close>: the token file, the OAuth flow and the client library are the
  environment; each call that can raise is a field that says whether it does.\<close>

record creds =
  creds_valid :: bool
  creds_expired :: bool
  creds_refresh_token :: bool

record 'w api_env =
  token_file :: "(exn + creds) option"
  refresh :: "exn option"
  credentials_file_exists :: bool
  run_flow :: "exn option"
  dump_token :: "exn option"
  build_service :: "exn option"
  drafts_create :: "'w service"
  api_files :: files

definition authenticate :: "'w api_env \<Rightarrow> pystr \<Rightarrow> 'w io \<Rightarrow> (exn + 'w service) \<times> 'w io" where
  "authenticate env credentials_file st =
     (case (case token_file env of
              None \<Rightarrow> Inr None
            | Some (Inl e) \<Rightarrow> Inl e
            | Some (Inr c) \<Rightarrow> Inr (Some c)) of
        Inl e \<Rightarrow> (Inl e, st)
      | Inr creds \<Rightarrow>
          (case (if (case creds of None \<Rightarrow> True | Some c \<Rightarrow> \<not> creds_valid c)
                 then (case (if (case creds of None \<Rightarrow> False
                                 | Some c \<Rightarrow> creds_expired c \<and> creds_refresh_token c)
                             then refresh env
                             else if \<not> credentials_file_exists env
                             then Some (FileNotFoundError (codes ''Credentials file '' @ [39] @ credentials_file @ [39]
                                    @ codes '' not found. Please download it from Google Cloud Console.''))
                             else run_flow env) of
                         Some e \<Rightarrow> Some e
                       | None \<Rightarrow> dump_token env)
                 else None) of
             Some e \<Rightarrow> (Inl e, st)
           | None \<Rightarrow>
               (case build_service env of
                  Some e \<Rightarrow> (Inl e, st)
                | None \<Rightarrow> (Inr (drafts_create env), print (codes ''Successfully authenticated with Gmail API'') st))))"

definition main :: "'w api_env \<Rightarrow> 'w io \<Rightarrow> int \<times> 'w io" where
  "main env st =
     (let st = print (codes ''Gmail Draft Creator'') st;
          st = print (replicate 50 61) st
      in case authenticate env (codes ''credentials.json'') st of
           (Inl e, st') \<Rightarrow> (1, print (codes ''Fatal error: '' @ str_exn e) st')
         | (Inr service, st') \<Rightarrow>
             (0, create_drafts_for_contacts service (api_files env) (codes ''email_template.txt'')
                   (codes ''contacts.csv'') (codes ''Faeling Facture pet commission information'') st'))"

section \<open>main_simple.py: drafts appended over IMAP\<close>

definition process_template_simple :: "pystr \<Rightarrow> contact \<Rightarrow> exn + pystr" where
  "process_template_simple template contact =
     (let name = dict_get contact (codes ''name'') (dict_get contact (codes ''Name'') (Str []))
      in replace_field template (codes ''%name%'') name)"

text \<open>The message appended to the Drafts folder, with its plain-text part. Selecting
  the folder and appending is the mailbox: it raises or not, and changes the account.\<close>

record imap_message =
  imap_from :: pystr
  imap_to :: pystr
  imap_subject :: pystr
  imap_body :: pystr

type_synonym 'w mailbox = "'w \<Rightarrow> imap_message \<Rightarrow> exn option \<times> 'w"

definition create_draft_via_imap ::
    "'w mailbox \<Rightarrow> pystr \<Rightarrow> pystr \<Rightarrow> pystr \<Rightarrow> pystr \<Rightarrow> 'w io \<Rightarrow> bool \<times> 'w io" where
  "create_draft_via_imap imap email_address to_email subject body st =
     (let (raised, w) = imap (world st)
            \<lparr>imap_from = email_address, imap_to = to_email, imap_subject = subject, imap_body = body\<rparr>;
          st = st\<lparr>world := w\<rparr>
      in case raised of
           None \<Rightarrow> (True, print ([0x2705] @ codes '' Draft created for '' @ to_email) st)
         | Some e \<Rightarrow>
             (False, print ([0x274C] @ codes '' Failed to create draft for '' @ to_email @ codes '': '' @ str_exn e) st))"

text \<open>The \<open>for\<close> loop of \<open>create_drafts_for_contacts\<close> over \<open>enumerate(contacts, 1)\<close>:
  \<open>n_contacts\<close> is \<open>len(contacts)\<close> and \<open>i\<close> the running index. A name that is \<open>None\<close>
  makes \<open>replace\<close> raise, which leaves the loop.\<close>

fun contacts_loop_simple ::
    "'w mailbox \<Rightarrow> pystr \<Rightarrow> pystr \<Rightarrow> pystr \<Rightarrow> nat \<Rightarrow> contact list \<Rightarrow> nat \<Rightarrow> nat \<Rightarrow> 'w io
       \<Rightarrow> (exn + nat) \<times> 'w io" where
  "contacts_loop_simple imap email_address template subject_template n_contacts [] i success_count st =
     (Inr success_count, st)"
| "contacts_loop_simple imap email_address template subject_template n_contacts (contact # rest) i success_count st =
     (let name = dict_get contact (codes ''name'') (dict_get contact (codes ''Name'') (Str []));
          email = dict_get contact (codes ''email'') (dict_get contact (codes ''Email'') (Str []));
          st = print (codes ''['' @ str_nat i @ codes ''/'' @ str_nat n_contacts @ codes ''] Processing ''
                      @ format_val name @ codes ''...'') st
      in if \<not> truthy email
         then contacts_loop_simple imap email_address template subject_template n_contacts rest (i + 1) success_count
                (print ([0x26A0, 0xFE0F] @ codes ''  No email found for '' @ format_val name) st)
         else case process_template_simple template contact of
                Inl e \<Rightarrow> (Inl e, st)
              | Inr processed_body \<Rightarrow>
                  (case replace_field subject_template (codes ''%name%'') name of
                     Inl e \<Rightarrow> (Inl e, st)
                   | Inr processed_subject \<Rightarrow>
                       (let (created, st) =
                              create_draft_via_imap imap email_address (str_of email) processed_subject processed_body st
                        in contacts_loop_simple imap email_address template subject_template n_contacts rest (i + 1)
                             (if created then success_count + 1 else success_count) st)))"

definition create_drafts_for_contacts_simple ::
    "'w mailbox \<Rightarrow> pystr \<Rightarrow> files \<Rightarrow> pystr \<Rightarrow> pystr \<Rightarrow> pystr \<Rightarrow> 'w io \<Rightarrow> 'w io" where
  "create_drafts_for_contacts_simple imap email_address fs template_file contacts_file subject_template st =
     (case load_template fs template_file of
        Inl e \<Rightarrow> print ([0x1F4A5] @ codes '' Error: '' @ str_exn e) st
      | Inr template \<Rightarrow>
          (case load_contacts fs contacts_file of
             Inl e \<Rightarrow> print ([0x1F4A5] @ codes '' Error: '' @ str_exn e) st
           | Inr contacts \<Rightarrow>
               (let st = print ([0x1F4E7] @ codes '' Loaded template from '' @ template_file) st;
                    st = print ([0x1F465] @ codes '' Loaded '' @ str_nat (length contacts) @ codes '' contacts from '' @ contacts_file) st;
                    st = print [] st
                in case contacts_loop_simple imap email_address template subject_template
                          (length contacts) contacts 1 0 st of
                     (Inl e, st') \<Rightarrow> print ([0x1F4A5] @ codes '' Error: '' @ str_exn e) st'
                   | (Inr success_count, st') \<Rightarrow>
                       (let st' = print ([10, 0x1F389] @ codes '' Completed! Created '' @ str_nat success_count
                                         @ codes '' drafts out of '' @ str_nat (length contacts) @ codes '' contacts.'') st'
                        in print ([0x1F4EE] @ codes '' Check your Gmail Drafts folder!'') st'))))"

text \<open>The module constants \<open>GMAIL_EMAIL\<close> and \<open>GMAIL_APP_PASSWORD\<close>, which the operator
  edits, the login and the mailbox are the environment. Closing the session when the
  object is deleted prints nothing and returns nothing, and is left out.\<close>

record 'w simple_env =
  GMAIL_EMAIL :: pystr
  GMAIL_APP_PASSWORD :: pystr
  imap_login :: "pystr \<Rightarrow> pystr \<Rightarrow> exn option"
  imap_append :: "'w mailbox"
  simple_files :: files

definition connect_imap :: "'w simple_env \<Rightarrow> pystr \<Rightarrow> pystr \<Rightarrow> 'w io \<Rightarrow> (exn + 'w mailbox) \<times> 'w io" where
  "connect_imap env email_address app_password st =
     (case imap_login env email_address app_password of
        None \<Rightarrow> (Inr (imap_append env), print ([0x2705] @ codes '' Successfully connected to Gmail'') st)
      | Some e \<Rightarrow>
          (Inl e, fold print
             [[0x274C] @ codes '' Failed to connect to Gmail: '' @ str_exn e,
              [10, 0x1F527] @ codes '' Setup Instructions:'',
              codes ''1. Go to https://myaccount.google.com/security'',
              codes ''2. Enable 2-Factor Authentication'',
              codes ''3. Generate an App Password for '' @ [39] @ codes ''Mail'' @ [39],
              codes ''4. Update GMAIL_EMAIL and GMAIL_APP_PASSWORD in this script''] st))"

definition main_simple :: "'w simple_env \<Rightarrow> 'w io \<Rightarrow> int \<times> 'w io" where
  "main_simple env st =
     (let st = print (codes ''Gmail Draft Creator - Simple Version'') st;
          st = print (replicate 50 61) st
      in if GMAIL_EMAIL env = codes ''your-email@gmail.com'' \<or> GMAIL_APP_PASSWORD env = codes ''your-app-password''
         then (1, fold print
                [[0x274C] @ codes '' Please update the credentials at the top of this script:'',
                 codes ''   - GMAIL_EMAIL: Your Gmail address'',
                 codes ''   - GMAIL_APP_PASSWORD: Your 16-character app password'',
                 [10, 0x1F527] @ codes '' To get an App Password:'',
                 codes ''1. Go to https://myaccount.google.com/security'',
                 codes ''2. Enable 2-Factor Authentication'',
                 codes ''3. Search for '' @ [39] @ codes ''App passwords'' @ [39],
                 codes ''4. Generate password for '' @ [39] @ codes ''Mail'' @ [39],
                 codes ''5. Copy the 16-character password''] st)
         else case connect_imap env (GMAIL_EMAIL env) (GMAIL_APP_PASSWORD env) st of
                (Inl e, st') \<Rightarrow> (1, print ([0x1F4A5] @ codes '' Fatal error: '' @ str_exn e) st')
              | (Inr imap, st') \<Rightarrow>
                  (0, create_drafts_for_contacts_simple imap (GMAIL_EMAIL env) (simple_files env)
                        (codes ''email_template.txt'') (codes ''contacts.csv'') (codes ''Email for %name%'') st'))"

section \<open>Vocabulary of the specification\<close>

text \<open>The first whitespace-delimited token of a name, in the specification's words: skip
  the leading whitespace, then take the characters up to the next whitespace.\<close>

definition first_token :: "pystr \<Rightarrow> pystr" where
  "first_token s = takeWhile (\<lambda>c. \<not> isspace c) (dropWhile isspace s)"

text \<open>A text ends inside a URL when one of its suffixes begins with a scheme and consists
  of characters of the URL class only: whatever URL characters follow such a text
  continue the URL that is open at its end.\<close>

fun ends_in_url :: "pystr \<Rightarrow> bool" where
  "ends_in_url [] = False"
| "ends_in_url (c # cs) =
     ((list_all url_char (c # cs)
       \<and> (prefix (codes ''http://'') (c # cs) \<or> prefix (codes ''https://'') (c # cs)))
      \<or> ends_in_url cs)"

text \<open>A contact whose e-mail field is empty or absent under both keys; a column that the
  row does not reach counts as absent.\<close>

definition lacks_email :: "contact \<Rightarrow> bool" where
  "lacks_email contact \<longleftrightarrow>
     (contact (codes ''email'') = None \<or> contact (codes ''email'') = Some PyNone
        \<or> contact (codes ''email'') = Some (Str [])) \<and>
     (contact (codes ''Email'') = None \<or> contact (codes ''Email'') = Some PyNone
        \<or> contact (codes ''Email'') = Some (Str []))"

section \<open>Example contacts\<close>

definition jane :: contact where
  "jane = map_of [(codes ''name'', Str (codes ''Jane Q. Public'')), (codes ''email'', Str (codes ''jane@example.com''))]"

definition blank :: contact where
  "blank = map_of [(codes ''name'', Str [32]), (codes ''email'', Str (codes ''blank@example.com''))]"

definition tom :: contact where
  "tom = map_of [(codes ''Name'', Str (codes ''Tom'')), (codes ''Email'', Str (codes ''tom@example.com''))]"


definition jane_trailing :: contact where
  "jane_trailing = map_of [(codes ''name'', Str (codes ''Jane '')), (codes ''email'', Str (codes ''jane@example.com''))]"

definition two_spaces :: contact where
  "two_spaces = map_of [(codes ''name'', Str [32, 32]), (codes ''email'', Str (codes ''x@example.com''))]"

definition bob :: contact where
  "bob = map_of [(codes ''name'', Str (codes ''Bob'')), (codes ''email'', Str [])]"

definition tim :: contact where
  "tim = map_of [(codes ''name'', Str (codes ''Tim'')), (codes ''email'', Str (codes ''tim@example.com''))]"

text \<open>A row that ends before the \<open>name\<close> column.\<close>

definition short_row :: contact where
  "short_row = map_of [(codes ''email'', Str (codes ''short@example.com'')), (codes ''name'', PyNone)]"

section \<open>Example environments\<close>

text \<open>A service that accepts every draft and records it, one that refuses the drafts for
  one recipient with an HTTP error, and a mailbox that records what is appended.\<close>

definition recording_service :: "message list service" where
  "recording_service w m = (Inr (codes ''r'' @ str_nat (length w)), w @ [m])"

definition bouncing_service :: "message list service" where
  "bouncing_service w m =
     (if msg_to m = codes ''jane@example.com'' then (Inl (HttpError (codes ''HTTP 400'')), w)
      else (Inr (codes ''r'' @ str_nat (length w)), w @ [m]))"

definition recording_mailbox :: "imap_message list mailbox" where
  "recording_mailbox w m = (None, w @ [m])"

text \<open>A template file and a contacts file of three rows, the second without an e-mail
  address.\<close>

definition example_read_text :: "pystr \<Rightarrow> exn + pystr" where
  "example_read_text f = Inr (codes ''Dear %name%, see http://example.com'')"

definition example_read_csv :: "pystr \<Rightarrow> exn + contact list" where
  "example_read_csv f = Inr [jane, bob, tom]"

definition example_files :: files where
  "example_files = \<lparr>read_text = example_read_text, read_csv = example_read_csv\<rparr>"

text \<open>Contacts files whose second row has a name of one space, or no name column.\<close>

definition blank_name_read_csv :: "pystr \<Rightarrow> exn + contact list" where
  "blank_name_read_csv f = Inr [bob, blank, tim]"

definition blank_name_files :: files where
  "blank_name_files = \<lparr>read_text = example_read_text, read_csv = blank_name_read_csv\<rparr>"

definition short_row_read_csv :: "pystr \<Rightarrow> exn + contact list" where
  "short_row_read_csv f = Inr [bob, short_row, tim]"

definition short_row_files :: files where
  "short_row_files = \<lparr>read_text = example_read_text, read_csv = short_row_read_csv\<rparr>"

text \<open>Missing input files, an account that is signed in and one that is not, for each
  script.\<close>

definition absent_read_text :: "pystr \<Rightarrow> exn + pystr" where
  "absent_read_text f = Inl (FileNotFoundError (codes ''[Errno 2] No such file or directory''))"

definition absent_read_csv :: "pystr \<Rightarrow> exn + contact list" where
  "absent_read_csv f = Inl (FileNotFoundError (codes ''[Errno 2] No such file or directory''))"

definition no_files :: files where
  "no_files = \<lparr>read_text = absent_read_text, read_csv = absent_read_csv\<rparr>"

definition no_contacts_file :: files where
  "no_contacts_file = \<lparr>read_text = example_read_text, read_csv = absent_read_csv\<rparr>"

definition signed_in :: "files \<Rightarrow> message list api_env" where
  "signed_in fs =
     \<lparr>token_file = Some (Inr \<lparr>creds_valid = True, creds_expired = False, creds_refresh_token = True\<rparr>),
      refresh = None, credentials_file_exists = True, run_flow = None, dump_token = None,
      build_service = None, drafts_create = recording_service, api_files = fs\<rparr>"

definition first_run_without_credentials :: "files \<Rightarrow> message list api_env" where
  "first_run_without_credentials fs =
     \<lparr>token_file = None, refresh = None, credentials_file_exists = False, run_flow = None,
      dump_token = None, build_service = None, drafts_create = bouncing_service, api_files = fs\<rparr>"

definition accept_login :: "pystr \<Rightarrow> pystr \<Rightarrow> exn option" where
  "accept_login email_address app_password = None"

definition reject_login :: "pystr \<Rightarrow> pystr \<Rightarrow> exn option" where
  "reject_login email_address app_password = Some (Exception (codes ''[AUTHENTICATIONFAILED] Invalid credentials''))"

definition logged_in :: "files \<Rightarrow> imap_message list simple_env" where
  "logged_in fs =
     \<lparr>GMAIL_EMAIL = codes ''me@gmail.com'', GMAIL_APP_PASSWORD = codes ''abcdefghijklmnop'',
      imap_login = accept_login, imap_append = recording_mailbox, simple_files = fs\<rparr>"

definition wrong_password :: "files \<Rightarrow> imap_message list simple_env" where
  "wrong_password fs =
     \<lparr>GMAIL_EMAIL = codes ''me@gmail.com'', GMAIL_APP_PASSWORD = codes ''abcdefghijklmnop'',
      imap_login = reject_login, imap_append = recording_mailbox, simple_files = fs\<rparr>"

section \<open>Properties of the string operations\<close>

lemmas eval_simps = codes_def dict_get_def isspace_def replace_def first_token_def truthy_def str_of_def
  format_val_def replace_field_def

lemma contains_empty: "contains s []"
  by (cases s) simp_all

lemma replace_scan_absent: "\<not> contains s old \<Longrightarrow> replace_scan s old new = s"
  by (induction s) simp_all

lemma replace_absent: "\<not> contains s old \<Longrightarrow> replace s old new = s"
  by (cases "old = []") (simp_all add: replace_def contains_empty replace_scan_absent)

text \<open>An occurrence that no earlier occurrence overlaps is replaced, the text before it
  is kept, and the scan goes on behind it.\<close>

lemma replace_scan_append:
  "old \<noteq> [] \<Longrightarrow> \<not> contains (a @ butlast old) old \<Longrightarrow>
   replace_scan (a @ old @ b) old new = a @ new @ replace_scan b old new"
proof (induction a)
  case Nil
  then show ?case by (cases old) simp_all
next
  case (Cons x a)
  from Cons.prems have np: "\<not> prefix old (x # a @ butlast old)"
    and nc: "\<not> contains (a @ butlast old) old"
    by simp_all
  have "\<not> prefix old (x # a @ old @ b)"
  proof
    assume p: "prefix old (x # a @ old @ b)"
    have "length old \<le> length (x # a @ butlast old)"
      using Cons.prems(1) by (cases old) simp_all
    moreover have "x # a @ old @ b = (x # a @ butlast old) @ (last old # b)"
      using Cons.prems(1) by simp
    ultimately have "prefix old (x # a @ butlast old)"
      using p by (metis prefix_length_prefix prefixI)
    with np show False ..
  qed
  with Cons.IH [OF Cons.prems(1) nc] show ?case by simp
qed

lemma str_split_Nil_iff: "str_split s = [] \<longleftrightarrow> (\<forall>c\<in>set s. isspace c)"
  by (subst str_split.simps) (simp add: Let_def dropWhile_eq_Nil_conv)

lemma item0_str_split:
  "item0 (str_split s) = (if \<forall>c\<in>set s. isspace c then Inl IndexError else Inr (first_token s))"
  by (subst str_split.simps) (simp add: Let_def dropWhile_eq_Nil_conv item0_def first_token_def)

lemma first_token_no_space: "\<forall>c\<in>set s. \<not> isspace c \<Longrightarrow> first_token s = s"
  by (cases s) (simp_all add: first_token_def)

text \<open>What \<open>process_template\<close> of main.py returns, by the kinds of name.\<close>

lemma process_template_cases:
  "process_template template contact =
     (case dict_get contact (codes ''name'') (dict_get contact (codes ''Name'') (Str [])) of
        PyNone \<Rightarrow> Inr (replace template (codes ''%name%'') [])
      | Str full_name \<Rightarrow>
          if full_name \<noteq> [] \<and> (\<forall>c\<in>set full_name. isspace c) then Inl IndexError
          else Inr (replace template (codes ''%name%'') (first_token full_name)))"
  by (auto simp: process_template_def Let_def item0_str_split first_token_def truthy_def str_of_def
        split: pyval.splits)

section \<open>Rendering\<close>

text \<open>
  C10. In main.py, \<open>process_template\<close> returns a body exactly for the names that are
  empty or hold a character that is not whitespace. For a name that is not empty and is
  all whitespace (a single space, say) the guard \<open>if full_name\<close> lets it through,
  \<open>full_name.split()\<close> is the empty list and \<open>[0]\<close> raises IndexError: nothing is
  substituted.
\<close>

theorem process_template_total_iff:
  assumes "dict_get contact (codes ''name'') (dict_get contact (codes ''Name'') (Str [])) = Str full_name"
  shows "(full_name \<noteq> [] \<and> (\<forall>c\<in>set full_name. isspace c) \<longrightarrow>
            str_split full_name = [] \<and> process_template template contact = Inl IndexError)
       \<and> (full_name = [] \<or> (\<exists>c\<in>set full_name. \<not> isspace c) \<longrightarrow>
            (\<exists>body. process_template template contact = Inr body))"
  unfolding process_template_cases assms by (auto simp: str_split_Nil_iff)

theorem process_template_total_iff_witness:
  "str_split [32] = [] \<and> process_template (codes ''Hi %name%'') blank = Inl IndexError
   \<and> (\<exists>body. process_template (codes ''Hi %name%'') tom = Inr body)"
  using process_template_total_iff [of blank "[32]" "codes ''Hi %name%''"]
        process_template_total_iff [of tom "codes ''Tom''" "codes ''Hi %name%''"]
  by (simp add: blank_def tom_def eval_simps)



text \<open>The first-name rule of main.py, for the names that have a token.\<close>

lemma process_template_first_token:
  assumes "dict_get contact (codes ''name'') (dict_get contact (codes ''Name'') (Str [])) = Str full_name"
    and "\<exists>c\<in>set full_name. \<not> isspace c"
  shows "process_template template contact = Inr (replace template (codes ''%name%'') (first_token full_name))"
  using assms by (auto simp: process_template_cases)

lemma process_template_jane:
  "process_template (codes ''Dear %name%, hello %name%!'') jane = Inr (codes ''Dear Jane, hello Jane!'')"
  by (simp add: process_template_cases jane_def eval_simps)

text \<open>
  C2. In main.py, \<open>process_template\<close> should put the first whitespace-delimited token of
  the name for every \<open>%name%\<close> whenever the name is not empty. It does so for a name
  that has a token (the two lemmas above), but a name of two spaces is not empty and
  has none: \<open>split()\<close> returns the empty list and \<open>[0]\<close> raises IndexError.
\<close>

theorem blank_name_first_token_raises:
  "dict_get two_spaces (codes ''name'') (dict_get two_spaces (codes ''Name'') (Str [])) = Str [32, 32]
   \<and> process_template (codes ''Dear %name%,'') two_spaces = Inl IndexError"
  by (simp add: process_template_cases two_spaces_def eval_simps)

text \<open>A template without the placeholder is returned as it is: by main_simple.py for
  every name that is a string, and by main.py for the names on which it returns.\<close>

lemma process_template_simple_identity:
  assumes "\<not> contains template (codes ''%name%'')"
    and "dict_get contact (codes ''name'') (dict_get contact (codes ''Name'') (Str [])) = Str full_name"
  shows "process_template_simple template contact = Inr template"
  using assms by (simp add: process_template_simple_def replace_field_def replace_absent)

lemma process_template_identity:
  assumes "\<not> contains template (codes ''%name%'')"
    and "dict_get contact (codes ''name'') (dict_get contact (codes ''Name'') (Str [])) = Str full_name"
    and "full_name = [] \<or> (\<exists>c\<in>set full_name. \<not> isspace c)"
  shows "process_template template contact = Inr template"
  using assms by (auto simp: process_template_cases replace_absent)

text \<open>
  C5. A template that holds no \<open>%name%\<close> should be rendered unchanged for every contact,
  by both renderers. For the contact whose name is a single space main_simple.py
  returns the template, and main.py raises IndexError.
\<close>

theorem no_placeholder_blank_name_raises:
  "\<not> contains (codes ''Hello there'') (codes ''%name%'')
   \<and> process_template (codes ''Hello there'') blank = Inl IndexError
   \<and> process_template_simple (codes ''Hello there'') blank = Inr (codes ''Hello there'')"
  by (simp add: process_template_cases process_template_simple_def blank_def eval_simps)

text \<open>
  C8, as stated, fails: the name \<open>Jane\<close> followed by a space has one token, and the two
  renderers differ on it, because \<open>split()\<close> drops the space and main_simple.py keeps it.
\<close>

theorem renderers_one_token_counterexample:
  "str_split (codes ''Jane '') = [codes ''Jane'']
   \<and> process_template (codes ''Hi %name%!'') jane_trailing = Inr (codes ''Hi Jane!'')
   \<and> process_template_simple (codes ''Hi %name%!'') jane_trailing = Inr (codes ''Hi Jane !'')"
  by (simp add: process_template_cases process_template_simple_def jane_trailing_def eval_simps str_split.simps)

text \<open>
  C8, amended. The two renderers are not equivalent: on the three-token name
  \<open>Jane Q. Public\<close> main.py substitutes \<open>Jane\<close> and main_simple.py the whole name. They
  agree whenever the name holds no whitespace character, that is, when it is empty or
  one token with nothing around it.
\<close>

theorem renderers_differ_and_agree:
  "str_split (codes ''Jane Q. Public'') = [codes ''Jane'', codes ''Q.'', codes ''Public'']
   \<and> process_template (codes ''Hi %name%!'') jane = Inr (codes ''Hi Jane!'')
   \<and> process_template_simple (codes ''Hi %name%!'') jane = Inr (codes ''Hi Jane Q. Public!'')
   \<and> (dict_get contact (codes ''name'') (dict_get contact (codes ''Name'') (Str [])) = Str full_name
        \<and> (\<forall>c\<in>set full_name. \<not> isspace c)
        \<longrightarrow> process_template template contact = process_template_simple template contact
            \<and> process_template template contact = Inr (replace template (codes ''%name%'') full_name))"
proof -
  have a: "str_split (codes ''Jane Q. Public'') = [codes ''Jane'', codes ''Q.'', codes ''Public'']"
    by (simp add: eval_simps str_split.simps)
  have b: "process_template (codes ''Hi %name%!'') jane = Inr (codes ''Hi Jane!'')"
    by (simp add: process_template_cases jane_def eval_simps)
  have c: "process_template_simple (codes ''Hi %name%!'') jane = Inr (codes ''Hi Jane Q. Public!'')"
    by (simp add: process_template_simple_def jane_def eval_simps)
  have d: "process_template template contact = process_template_simple template contact
           \<and> process_template template contact = Inr (replace template (codes ''%name%'') full_name)"
    if "dict_get contact (codes ''name'') (dict_get contact (codes ''Name'') (Str [])) = Str full_name"
      and "\<forall>c\<in>set full_name. \<not> isspace c"
    using that
    by (auto simp: process_template_cases process_template_simple_def replace_field_def first_token_no_space)
  from a b c d show ?thesis by blast
qed

theorem renderers_differ_and_agree_witness:
  "process_template (codes ''Hi %name%!'') tom = Inr (codes ''Hi Tom!'')
   \<and> process_template_simple (codes ''Hi %name%!'') tom = Inr (codes ''Hi Tom!'')"
  using renderers_differ_and_agree [of tom "codes ''Tom''" "codes ''Hi %name%!''"]
  by (simp add: process_template_simple_def tom_def eval_simps)

section \<open>The batch\<close>

lemma lacks_email_get:
  "lacks_email contact \<Longrightarrow>
   \<not> truthy (dict_get contact (codes ''email'') (dict_get contact (codes ''Email'') (Str [])))"
  by (auto simp: lacks_email_def dict_get_def truthy_def)

text \<open>A contact without an e-mail address is skipped by both loops: the warning is printed
  and the loop goes on with the rest of the list, the count unchanged.\<close>

lemma contacts_loop_skip:
  assumes "lacks_email contact"
  shows "contacts_loop service template subject_template (contact # rest) success_count st
         = contacts_loop service template subject_template rest success_count
             (print (codes ''Warning: No email found for contact ''
                     @ format_val (dict_get contact (codes ''name'') (dict_get contact (codes ''Name'') (Str [])))) st)"
  using lacks_email_get [OF assms] by (simp add: Let_def)

lemma contacts_loop_simple_skip:
  assumes "lacks_email contact"
  shows "contacts_loop_simple imap addr template subject_template n_contacts (contact # rest) i success_count st
         = contacts_loop_simple imap addr template subject_template n_contacts rest (i + 1) success_count
             (print ([0x26A0, 0xFE0F] @ codes ''  No email found for ''
                     @ format_val (dict_get contact (codes ''name'') (dict_get contact (codes ''Name'') (Str []))))
                (print (codes ''['' @ str_nat i @ codes ''/'' @ str_nat n_contacts @ codes ''] Processing ''
                        @ format_val (dict_get contact (codes ''name'') (dict_get contact (codes ''Name'') (Str [])))
                        @ codes ''...'') st))"
  using lacks_email_get [OF assms] by (simp add: Let_def)

lemmas run_simps = create_drafts_for_contacts_def create_drafts_for_contacts_simple_def load_template_def
  load_contacts_def example_files_def example_read_text_def example_read_csv_def create_draft_def
  create_draft_via_imap_def recording_service_def recording_mailbox_def bouncing_service_def print_def Let_def
  process_template_cases process_template_simple_def jane_def bob_def tom_def str_nat.simps lacks_email_def

text \<open>Three rows, the second without an address, every draft accepted: both scripts end
  with the summary of two drafts out of three contacts.\<close>

lemma three_contacts_summary:
  "stdout (create_drafts_for_contacts recording_service example_files (codes ''email_template.txt'')
             (codes ''contacts.csv'') (codes ''Hello %name%'') \<lparr>world = [], stdout = []\<rparr>)
     = [codes ''Loaded template from email_template.txt'',
        codes ''Loaded 3 contacts from contacts.csv'',
        codes ''Draft created successfully for jane@example.com (ID: r0)'',
        codes ''Warning: No email found for contact Bob'',
        codes ''Draft created successfully for tom@example.com (ID: r1)'',
        [10] @ codes ''Completed! Created 2 drafts out of 3 contacts.'']"
  "stdout (create_drafts_for_contacts_simple recording_mailbox (codes ''me@gmail.com'') example_files
             (codes ''email_template.txt'') (codes ''contacts.csv'') (codes ''Hello %name%'')
             \<lparr>world = [], stdout = []\<rparr>) ! 9
     = [10, 0x1F389] @ codes '' Completed! Created 2 drafts out of 3 contacts.''"
  by (simp_all add: run_simps eval_simps)

text \<open>
  C1. A contact without an e-mail address should be skipped, the contacts after it
  processed, and the run should end with the summary of successes out of all contacts,
  for every contact list. The skip itself works (the lemmas above). But take the rows Bob
  (no address), a contact whose name is one space, and Tim. main.py skips Bob, then
  \<open>process_template\<close> raises IndexError on the blank name: the loop is left, Tim is never
  processed, no draft reaches the account, and the last line printed is the error, not
  the summary. main_simple.py ends the same way, with a TypeError, when the second row
  is too short to have a name.
\<close>

theorem blank_name_aborts_batch:
  "lacks_email bob
   \<and> create_drafts_for_contacts recording_service blank_name_files (codes ''email_template.txt'')
         (codes ''contacts.csv'') (codes ''Hello %name%'') \<lparr>world = [], stdout = []\<rparr>
       = \<lparr>world = [],
          stdout = [codes ''Loaded template from email_template.txt'',
                    codes ''Loaded 3 contacts from contacts.csv'',
                    codes ''Warning: No email found for contact Bob'',
                    codes ''Error: list index out of range'']\<rparr>
   \<and> create_drafts_for_contacts_simple recording_mailbox (codes ''me@gmail.com'') short_row_files
         (codes ''email_template.txt'') (codes ''contacts.csv'') (codes ''Hello %name%'')
         \<lparr>world = [], stdout = []\<rparr>
       = \<lparr>world = [],
          stdout = [[0x1F4E7] @ codes '' Loaded template from email_template.txt'',
                    [0x1F465] @ codes '' Loaded 3 contacts from contacts.csv'',
                    [],
                    codes ''[1/3] Processing Bob...'',
                    [0x26A0, 0xFE0F] @ codes ''  No email found for Bob'',
                    codes ''[2/3] Processing None...'',
                    [0x1F4A5] @ codes '' Error: replace() argument 2 must be str, not None'']\<rparr>"
  by (simp add: run_simps eval_simps blank_name_files_def blank_name_read_csv_def short_row_files_def
        short_row_read_csv_def blank_def tim_def short_row_def)

text \<open>
  C9. In main.py, when the draft-create call raises an HTTP error, \<open>create_draft\<close> catches
  it and returns False; the loop then goes on with the next contact, the count unchanged.
\<close>

theorem http_error_is_per_contact_failure:
  assumes "dict_get contact (codes ''email'') (dict_get contact (codes ''Email'') (Str [])) = Str email"
    and "email \<noteq> []"
    and "dict_get contact (codes ''name'') (dict_get contact (codes ''Name'') (Str [])) = Str name"
    and "process_template template contact = Inr body"
    and "service (world st) \<lparr>msg_to = email, msg_subject = replace subject_template (codes ''%name%'') name,
                                msg_html = convert_to_html body\<rparr> = (Inl (HttpError m), w)"
  shows "create_draft service email (replace subject_template (codes ''%name%'') name) body st
           = (Inr False, print (codes ''An error occurred creating draft for '' @ email @ codes '': '' @ m) (st\<lparr>world := w\<rparr>))
       \<and> contacts_loop service template subject_template (contact # rest) success_count st
           = contacts_loop service template subject_template rest success_count
               (print (codes ''An error occurred creating draft for '' @ email @ codes '': '' @ m) (st\<lparr>world := w\<rparr>))"
  using assms by (simp add: create_draft_def Let_def truthy_def str_of_def replace_field_def)

theorem http_error_is_per_contact_failure_witness:
  "create_draft bouncing_service (codes ''jane@example.com'') (codes ''Hello Jane Q. Public'') (codes ''Dear Jane'')
       \<lparr>world = [], stdout = []\<rparr>
     = (Inr False, \<lparr>world = [], stdout = [codes ''An error occurred creating draft for jane@example.com: HTTP 400'']\<rparr>)
   \<and> contacts_loop bouncing_service (codes ''Dear %name%'') (codes ''Hello %name%'') [jane, tom] 0 \<lparr>world = [], stdout = []\<rparr>
     = contacts_loop bouncing_service (codes ''Dear %name%'') (codes ''Hello %name%'') [tom] 0
         \<lparr>world = [], stdout = [codes ''An error occurred creating draft for jane@example.com: HTTP 400'']\<rparr>
   \<and> fst (contacts_loop bouncing_service (codes ''Dear %name%'') (codes ''Hello %name%'') [jane, tom] 0
            \<lparr>world = [], stdout = []\<rparr>) = Inr 1"
  using http_error_is_per_contact_failure [of jane "codes ''jane@example.com''" "codes ''Jane Q. Public''"
      "codes ''Dear %name%''" "codes ''Dear Jane''" bouncing_service "\<lparr>world = [], stdout = []\<rparr>"
      "codes ''Hello %name%''" "codes ''HTTP 400''" "[]" "[tom]" 0]
  by (simp add: run_simps eval_simps)

section \<open>Exit codes\<close>

lemmas env_simps = no_files_def no_contacts_file_def absent_read_text_def absent_read_csv_def signed_in_def
  first_run_without_credentials_def accept_login_def reject_login_def logged_in_def wrong_password_def
  main_def main_simple_def authenticate_def connect_imap_def

text \<open>
  C4, as stated, fails: with a valid token and no template file main.py prints the error
  and returns 0, and so does main_simple.py after a successful login when the contacts
  file is missing. \<open>create_drafts_for_contacts\<close> catches every exception itself.
\<close>

theorem missing_files_exit_zero_counterexample:
  "main (signed_in no_files) \<lparr>world = [], stdout = []\<rparr>
     = (0, \<lparr>world = [],
            stdout = [codes ''Gmail Draft Creator'', replicate 50 61,
                      codes ''Successfully authenticated with Gmail API'',
                      codes ''Error: Template file '' @ [39] @ codes ''email_template.txt'' @ [39] @ codes '' not found'']\<rparr>)
   \<and> fst (main_simple (logged_in no_contacts_file) \<lparr>world = [], stdout = []\<rparr>) = 0
   \<and> last (stdout (snd (main_simple (logged_in no_contacts_file) \<lparr>world = [], stdout = []\<rparr>)))
       = [0x1F4A5] @ codes '' Error: Contacts file '' @ [39] @ codes ''contacts.csv'' @ [39] @ codes '' not found''"
  by (simp add: env_simps run_simps eval_simps)

text \<open>Whether \<open>authenticate\<close> raises does not depend on what was printed before.\<close>

lemma authenticate_fst:
  "fst (authenticate env credentials_file st) = fst (authenticate env credentials_file st')"
  by (simp add: authenticate_def split: option.splits sum.splits)

text \<open>
  C4, amended. Each script returns 1 exactly when constructing its draft creator raises
  (for main.py, \<open>authenticate\<close>, a missing credentials file included; for main_simple.py,
  the login), or, in main_simple.py, when a credential constant still has its placeholder
  value; otherwise it returns 0, whatever happens to the files and to the single drafts.
  In particular, once main.py is authenticated, a template or contacts file that cannot
  be loaded ends the run with the line \<open>Error: ...\<close> and the exit code 0.
\<close>

theorem exit_code_follows_construction:
  "fst (main env st) = (if isl (fst (authenticate env (codes ''credentials.json'') st)) then 1 else 0)
   \<and> fst (main_simple senv st2)
       = (if GMAIL_EMAIL senv = codes ''your-email@gmail.com'' \<or> GMAIL_APP_PASSWORD senv = codes ''your-app-password''
             \<or> imap_login senv (GMAIL_EMAIL senv) (GMAIL_APP_PASSWORD senv) \<noteq> None
          then 1 else 0)
   \<and> (\<not> isl (fst (authenticate env (codes ''credentials.json'') st))
        \<and> isl (load_template (api_files env) (codes ''email_template.txt'')) \<longrightarrow>
        fst (main env st) = 0
        \<and> last (stdout (snd (main env st)))
            = codes ''Error: '' @ str_exn (projl (load_template (api_files env) (codes ''email_template.txt''))))
   \<and> (\<not> isl (fst (authenticate env (codes ''credentials.json'') st))
        \<and> \<not> isl (load_template (api_files env) (codes ''email_template.txt''))
        \<and> isl (load_contacts (api_files env) (codes ''contacts.csv'')) \<longrightarrow>
        fst (main env st) = 0
        \<and> last (stdout (snd (main env st)))
            = codes ''Error: '' @ str_exn (projl (load_contacts (api_files env) (codes ''contacts.csv''))))"
proof -
  let ?st = "print (replicate 50 61) (print (codes ''Gmail Draft Creator'') st)"
  have a: "fst (authenticate env (codes ''credentials.json'') ?st) = fst (authenticate env (codes ''credentials.json'') st)"
    by (rule authenticate_fst)
  obtain r st' where au: "authenticate env (codes ''credentials.json'') ?st = (r, st')"
    by (cases "authenticate env (codes ''credentials.json'') ?st")
  with a have r: "fst (authenticate env (codes ''credentials.json'') st) = r" by simp
  have 1: "fst (main env st) = (if isl (fst (authenticate env (codes ''credentials.json'') st)) then 1 else 0)"
    unfolding r using au by (cases r) (simp_all add: main_def Let_def)
  have 2: "fst (main_simple senv st2)
       = (if GMAIL_EMAIL senv = codes ''your-email@gmail.com'' \<or> GMAIL_APP_PASSWORD senv = codes ''your-app-password''
             \<or> imap_login senv (GMAIL_EMAIL senv) (GMAIL_APP_PASSWORD senv) \<noteq> None
          then 1 else 0)"
    by (auto simp: main_simple_def connect_imap_def Let_def split: option.splits)
  have 3: "last (stdout (snd (main env st)))
            = codes ''Error: '' @ str_exn (projl (load_template (api_files env) (codes ''email_template.txt'')))"
    if "\<not> isl (fst (authenticate env (codes ''credentials.json'') st))"
      and "isl (load_template (api_files env) (codes ''email_template.txt''))"
    using that unfolding r using au
    by (cases r; cases "load_template (api_files env) (codes ''email_template.txt'')")
       (simp_all add: main_def Let_def create_drafts_for_contacts_def print_def)
  have 4: "last (stdout (snd (main env st)))
            = codes ''Error: '' @ str_exn (projl (load_contacts (api_files env) (codes ''contacts.csv'')))"
    if "\<not> isl (fst (authenticate env (codes ''credentials.json'') st))"
      and "\<not> isl (load_template (api_files env) (codes ''email_template.txt''))"
      and "isl (load_contacts (api_files env) (codes ''contacts.csv''))"
    using that unfolding r using au
    by (cases r; cases "load_template (api_files env) (codes ''email_template.txt'')";
        cases "load_contacts (api_files env) (codes ''contacts.csv'')")
       (simp_all add: main_def Let_def create_drafts_for_contacts_def print_def)
  from 1 2 3 4 show ?thesis by simp
qed

theorem exit_code_follows_construction_witness:
  "fst (main (signed_in no_files) \<lparr>world = [], stdout = []\<rparr>) = 0
   \<and> fst (main (signed_in example_files) \<lparr>world = [], stdout = []\<rparr>) = 0
   \<and> fst (main (first_run_without_credentials example_files) \<lparr>world = [], stdout = []\<rparr>) = 1
   \<and> fst (main_simple (logged_in example_files) \<lparr>world = [], stdout = []\<rparr>) = 0
   \<and> fst (main_simple (wrong_password example_files) \<lparr>world = [], stdout = []\<rparr>) = 1
   \<and> last (stdout (snd (main (signed_in no_files) \<lparr>world = [], stdout = []\<rparr>)))
       = codes ''Error: Template file '' @ [39] @ codes ''email_template.txt'' @ [39] @ codes '' not found''
   \<and> last (stdout (snd (main (signed_in no_contacts_file) \<lparr>world = [], stdout = []\<rparr>)))
       = codes ''Error: Contacts file '' @ [39] @ codes ''contacts.csv'' @ [39] @ codes '' not found''"
  using exit_code_follows_construction [of "signed_in no_files" "\<lparr>world = [], stdout = []\<rparr>"
          "logged_in example_files" "\<lparr>world = [], stdout = []\<rparr>"]
        exit_code_follows_construction [of "signed_in example_files" "\<lparr>world = [], stdout = []\<rparr>"
          "wrong_password example_files" "\<lparr>world = [], stdout = []\<rparr>"]
        exit_code_follows_construction [of "first_run_without_credentials example_files" "\<lparr>world = [], stdout = []\<rparr>"
          "logged_in example_files" "\<lparr>world = [], stdout = []\<rparr>"]
        exit_code_follows_construction [of "signed_in no_contacts_file" "\<lparr>world = [], stdout = []\<rparr>"
          "logged_in example_files" "\<lparr>world = [], stdout = []\<rparr>"]
  by (simp add: signed_in_def first_run_without_credentials_def logged_in_def wrong_password_def
        accept_login_def reject_login_def authenticate_def no_files_def no_contacts_file_def
        absent_read_text_def absent_read_csv_def example_read_text_def load_template_def load_contacts_def
        codes_def)

section \<open>The subject line\<close>

text \<open>
  C3, as stated, fails: for the contact \<open>Jane Q. Public\<close> and the subject template
  \<open>Hello %name%\<close>, main.py submits the subject \<open>Hello Jane Q. Public\<close>, while the body gets
  the first token only; the first-token rule would give \<open>Hello Jane\<close>.
\<close>

theorem subject_first_name_counterexample:
  "world (snd (contacts_loop recording_service (codes ''Dear %name%'') (codes ''Hello %name%'') [jane] 0
                 \<lparr>world = [], stdout = []\<rparr>))
     = [\<lparr>msg_to = codes ''jane@example.com'', msg_subject = codes ''Hello Jane Q. Public'',
         msg_html = convert_to_html (codes ''Dear Jane'')\<rparr>]
   \<and> replace (codes ''Hello %name%'') (codes ''%name%'') (first_token (codes ''Jane Q. Public'')) = codes ''Hello Jane''"
  by (simp add: run_simps eval_simps)

text \<open>
  C3, amended. In main.py the subject of the draft is the subject template with every
  \<open>%name%\<close> replaced by the contact's whole name, as the name field holds it; only the body,
  rendered by \<open>process_template\<close>, gets the first whitespace-delimited token. The draft
  that reaches the service carries this subject.
\<close>

theorem subject_gets_full_name:
  assumes "dict_get contact (codes ''email'') (dict_get contact (codes ''Email'') (Str [])) = Str email"
    and "email \<noteq> []"
    and "dict_get contact (codes ''name'') (dict_get contact (codes ''Name'') (Str [])) = Str name"
    and "process_template template contact = Inr body"
  shows "contacts_loop service template subject_template (contact # rest) success_count st
           = (case create_draft service email (replace subject_template (codes ''%name%'') name) body st of
                (Inl e, st') \<Rightarrow> (Inl e, st')
              | (Inr created, st') \<Rightarrow>
                  contacts_loop service template subject_template rest
                    (if created then success_count + 1 else success_count) st')
       \<and> world (snd (contacts_loop recording_service template subject_template [contact] success_count rst))
           = world rst @ [\<lparr>msg_to = email, msg_subject = replace subject_template (codes ''%name%'') name,
                           msg_html = convert_to_html body\<rparr>]
       \<and> body = replace template (codes ''%name%'') (first_token name)"
proof -
  have b: "body = replace template (codes ''%name%'') (first_token name)"
    using assms(3,4) by (auto simp: process_template_cases Let_def split: if_splits)
  have l: "contacts_loop service template subject_template (contact # rest) success_count st
           = (case create_draft service email (replace subject_template (codes ''%name%'') name) body st of
                (Inl e, st') \<Rightarrow> (Inl e, st')
              | (Inr created, st') \<Rightarrow>
                  contacts_loop service template subject_template rest
                    (if created then success_count + 1 else success_count) st')"
    using assms by (simp add: Let_def truthy_def str_of_def replace_field_def)
  have r: "world (snd (contacts_loop recording_service template subject_template [contact] success_count rst))
           = world rst @ [\<lparr>msg_to = email, msg_subject = replace subject_template (codes ''%name%'') name,
                           msg_html = convert_to_html body\<rparr>]"
    using assms
    by (simp add: create_draft_def recording_service_def Let_def print_def truthy_def str_of_def replace_field_def)
  from b l r show ?thesis by simp
qed

theorem subject_gets_full_name_witness:
  "world (snd (contacts_loop recording_service (codes ''Dear %name%'') (codes ''Hello %name%'') [jane_trailing] 0
                 \<lparr>world = [], stdout = []\<rparr>))
     = [\<lparr>msg_to = codes ''jane@example.com'', msg_subject = codes ''Hello Jane '',
         msg_html = convert_to_html (codes ''Dear Jane'')\<rparr>]"
  using subject_gets_full_name [of jane_trailing "codes ''jane@example.com''" "codes ''Jane ''" "codes ''Dear %name%''"
      "codes ''Dear Jane''" recording_service "codes ''Hello %name%''" "[]" 0 "\<lparr>world = [], stdout = []\<rparr>"
      "\<lparr>world = [], stdout = []\<rparr>"]
  by (simp add: jane_trailing_def run_simps eval_simps)

section \<open>HTML promotion\<close>

text \<open>Replacing a single character works character by character.\<close>

lemma replace_scan_single:
  "replace_scan s [c] new = concat (map (\<lambda>x. if x = c then new else [x]) s)"
  by (induction s) auto

lemma replace_single:
  "replace s [c] new = concat (map (\<lambda>x. if x = c then new else [x]) s)"
  by (simp add: replace_def replace_scan_single)

text \<open>The two schemes consist of characters of the class.\<close>

lemma scheme_chars:
  "\<forall>c\<in>set (codes ''https://''). url_char c" "\<forall>c\<in>set (codes ''http://''). url_char c"
  by (simp_all add: codes_def url_char_def isspace_def)

lemma scheme_length: "length (codes ''https://'') = 8" "length (codes ''http://'') = 7"
  by (simp_all add: codes_def)

text \<open>A character outside the class ends every match that begins before it, so what follows
  it does not change what the pattern matches there.\<close>

lemma prefix_append_stop:
  assumes "\<forall>c\<in>set p. P c" and "\<exists>c\<in>set b. \<not> P c"
  shows "prefix p (b @ s) \<longleftrightarrow> prefix p b"
proof
  assume "prefix p (b @ s)"
  then consider "prefix p b" | us where "p = b @ us"
    by (auto simp: prefix_append)
  then show "prefix p b"
  proof cases
    case 1
    then show ?thesis .
  next
    case 2
    with assms show ?thesis by auto
  qed
next
  assume "prefix p b"
  then show "prefix p (b @ s)" by (rule prefix_prefix)
qed

lemma match_after_stop:
  assumes "\<exists>c\<in>set r. \<not> url_char c"
  shows "match_after scheme (r @ s) = match_after scheme r"
proof -
  from assms obtain c where "c \<in> set r" "\<not> url_char c" by blast
  then have "takeWhile url_char (r @ s) = takeWhile url_char r"
    by (rule takeWhile_append1)
  then show ?thesis by (simp add: match_after_def)
qed

lemma match_scheme_stop:
  assumes p: "\<forall>c\<in>set p. url_char c" and b: "\<exists>c\<in>set b. \<not> url_char c" and pre: "prefix p b"
  shows "match_after p (drop (length p) (b @ s)) = match_after p (drop (length p) b)"
proof -
  from pre obtain r where r: "b = p @ r" by (auto simp: prefix_def)
  with p b have "\<exists>c\<in>set r. \<not> url_char c" by auto
  then show ?thesis unfolding r by (simp add: match_after_stop)
qed

lemma url_pattern_match_stop:
  assumes "\<exists>c\<in>set b. \<not> url_char c"
  shows "url_pattern_match (b @ s) = url_pattern_match b"
proof -
  note pa = prefix_append_stop [where P = url_char, OF _ assms]
  have 1: "prefix (codes ''https://'') (b @ s) \<longleftrightarrow> prefix (codes ''https://'') b"
    by (rule pa) (rule scheme_chars)
  have 2: "prefix (codes ''http://'') (b @ s) \<longleftrightarrow> prefix (codes ''http://'') b"
    by (rule pa) (rule scheme_chars)
  have 3: "match_after (codes ''https://'') (drop 8 (b @ s)) = match_after (codes ''https://'') (drop 8 b)"
    if "prefix (codes ''https://'') b"
    using match_scheme_stop [OF scheme_chars(1) assms that, of s] by (simp add: scheme_length)
  have 4: "match_after (codes ''http://'') (drop 7 (b @ s)) = match_after (codes ''http://'') (drop 7 b)"
    if "prefix (codes ''http://'') b"
    using match_scheme_stop [OF scheme_chars(2) assms that, of s] by (simp add: scheme_length)
  show ?thesis
    unfolding url_pattern_match_def 1 2 using 3 4 by simp
qed

text \<open>A match is a non-empty prefix made of characters of the class.\<close>

lemma url_pattern_match_Some:
  assumes "url_pattern_match s = Some m"
  shows "prefix m s" and "m \<noteq> []" and "\<forall>c\<in>set m. url_char c"
proof -
  have k: "prefix (p @ takeWhile url_char (drop (length p) s)) s" if "prefix p s" for p
  proof -
    from that obtain r where "s = p @ r" by (auto simp: prefix_def)
    then show ?thesis
      by (simp add: takeWhile_is_prefix)
  qed
  from assms consider
      (https) "prefix (codes ''https://'') s" "m = codes ''https://'' @ takeWhile url_char (drop 8 s)"
    | (http) "prefix (codes ''http://'') s" "m = codes ''http://'' @ takeWhile url_char (drop 7 s)"
    by (auto simp: url_pattern_match_def match_after_def Let_def split: if_splits)
  note c = this
  show "prefix m s"
    using c k [of "codes ''https://''"] k [of "codes ''http://''"] by cases (simp_all add: scheme_length)
  show "m \<noteq> []"
    using c by cases (simp_all add: codes_def)
  show "\<forall>c\<in>set m. url_char c"
    using c scheme_chars by cases (auto dest: set_takeWhileD)
qed

text \<open>A scheme followed by a non-empty run of the class, up to the end of the text or to
  a character outside the class, is matched whole.\<close>

lemma url_pattern_match_url:
  assumes "scheme = codes ''http://'' \<or> scheme = codes ''https://''"
    and "rest \<noteq> []" and "\<forall>c\<in>set rest. url_char c"
    and "after = [] \<or> \<not> url_char (hd after)"
  shows "url_pattern_match (scheme @ rest @ after) = Some (scheme @ rest)"
proof -
  have t: "takeWhile url_char (rest @ after) = rest"
  proof (cases after)
    case Nil
    then show ?thesis using assms(3) by simp
  next
    case (Cons a as)
    with assms(4) have "\<not> url_char a" by simp
    then show ?thesis unfolding Cons using assms(3) by (simp add: takeWhile_tail)
  qed
  from assms(1) show ?thesis
  proof
    assume s: "scheme = codes ''http://''"
    have n: "\<not> prefix (codes ''https://'') (codes ''http://'' @ rest @ after)"
      by (simp add: codes_def)
    have d: "drop 7 (codes ''http://'' @ rest @ after) = rest @ after"
      by (simp add: codes_def)
    show ?thesis
      unfolding url_pattern_match_def s using n assms(2)
      by (simp add: scheme_length match_after_def t)
  next
    assume s: "scheme = codes ''https://''"
    have d: "drop 8 (codes ''https://'' @ rest @ after) = rest @ after"
      by (simp add: codes_def)
    show ?thesis
      unfolding url_pattern_match_def s using assms(2)
      by (simp add: scheme_length match_after_def t)
  qed
qed

lemma re_sub_url_url:
  assumes "scheme = codes ''http://'' \<or> scheme = codes ''https://''"
    and "rest \<noteq> []" and "\<forall>c\<in>set rest. url_char c"
    and "after = [] \<or> \<not> url_char (hd after)"
  shows "re_sub_url (scheme @ rest @ after) = anchor (scheme @ rest) @ re_sub_url after"
proof -
  from assms(1) obtain c cs where sc: "scheme = c # cs"
    by (cases scheme) (auto simp: codes_def)
  have "re_sub_url ((scheme @ rest) @ after)
        = anchor (scheme @ rest) @ re_sub_url (drop (length (scheme @ rest)) ((scheme @ rest) @ after))"
    using url_pattern_match_url [OF assms] unfolding sc by simp
  then show ?thesis by simp
qed

text \<open>The line-break pass keeps the delimiters at both ends of a text.\<close>

lemma concat_keep:
  "\<forall>x\<in>set s. x \<noteq> c \<Longrightarrow> concat (map (\<lambda>x. if x = c then new else [x]) s) = s"
  by (induction s) simp_all

lemma br_hd:
  assumes "after = [] \<or> \<not> url_char (hd after)"
  shows "replace after [10] (codes ''<br>'' @ [10]) = []
         \<or> \<not> url_char (hd (replace after [10] (codes ''<br>'' @ [10])))"
proof (cases after)
  case Nil
  then show ?thesis by (simp add: replace_single)
next
  case (Cons a as)
  with assms have "\<not> url_char a" by simp
  then show ?thesis
    unfolding Cons by (simp add: replace_single url_char_def codes_def)
qed

text \<open>Texts that do not end inside a URL: those that end with a character outside the
  class, and those that hold no scheme at all.\<close>

lemma ends_in_url_drop: "ends_in_url (drop n b) \<Longrightarrow> ends_in_url b"
  by (induction b arbitrary: n) (auto simp: drop_Cons split: nat.splits)

lemma ends_in_url_delimited: "b = [] \<or> \<not> url_char (last b) \<Longrightarrow> \<not> ends_in_url b"
  by (induction b) (auto simp: list_all_iff split: if_splits)

lemma ends_in_url_contains:
  "ends_in_url b \<Longrightarrow> contains b (codes ''http://'') \<or> contains b (codes ''https://'')"
  by (induction b) auto

text \<open>A scheme cannot begin in one text and end in a following text that begins with
  \<open>h\<close>, since no scheme has an \<open>h\<close> after its first character.\<close>

lemma scheme_tail: "104 \<notin> set (tl (codes ''http://''))" "104 \<notin> set (tl (codes ''https://''))"
  by (simp_all add: codes_def)

lemma scheme_not_straddling:
  assumes p: "104 \<notin> set (tl p)" and np: "\<not> prefix p x" and x: "x \<noteq> []"
    and s: "s \<noteq> []" "hd s = 104"
  shows "\<not> prefix p (x @ s)"
proof
  assume "prefix p (x @ s)"
  with np obtain us where us: "p = x @ us" "prefix us s"
    by (auto simp: prefix_append)
  from us(1) np have "us \<noteq> []" by auto
  with us(2) s have "hd us = 104"
    by (cases us; cases s) auto
  with \<open>us \<noteq> []\<close> have "104 \<in> set us" by (cases us) auto
  moreover from x us(1) have "set us \<subseteq> set (tl p)" by (cases x) auto
  ultimately show False using p by blast
qed

lemma url_pattern_match_open:
  assumes "\<not> ends_in_url (c # cs)" and s: "s \<noteq> []" "hd s = 104"
  shows "url_pattern_match ((c # cs) @ s) = url_pattern_match (c # cs)"
proof (cases "\<exists>x\<in>set (c # cs). \<not> url_char x")
  case True
  then show ?thesis by (rule url_pattern_match_stop)
next
  case False
  then have "list_all url_char (c # cs)" by (simp add: list_all_iff)
  with assms(1) have n: "\<not> prefix (codes ''http://'') (c # cs)" "\<not> prefix (codes ''https://'') (c # cs)"
    by simp_all
  have "\<not> prefix (codes ''http://'') ((c # cs) @ s)"
    using scheme_tail(1) n(1) _ s by (rule scheme_not_straddling) simp
  moreover have "\<not> prefix (codes ''https://'') ((c # cs) @ s)"
    using scheme_tail(2) n(2) _ s by (rule scheme_not_straddling) simp
  ultimately show ?thesis
    using n unfolding url_pattern_match_def by simp
qed

text \<open>Behind a text that does not end inside a URL the substitution starts afresh.\<close>

lemma re_sub_url_append_open:
  "\<not> ends_in_url b \<Longrightarrow> s \<noteq> [] \<Longrightarrow> hd s = 104 \<Longrightarrow> re_sub_url (b @ s) = re_sub_url b @ re_sub_url s"
proof (induction b rule: re_sub_url.induct)
  case 1
  then show ?case by simp
next
  case (2 c cs)
  have m: "url_pattern_match ((c # cs) @ s) = url_pattern_match (c # cs)"
    using "2.prems" by (rule url_pattern_match_open)
  from "2.prems"(1) have nr: "\<not> ends_in_url cs" by simp
  show ?case
  proof (cases "url_pattern_match (c # cs)")
    case None
    from "2.IH"(1) [OF None nr "2.prems"(2,3)] show ?thesis
      using None m by simp
  next
    case (Some u)
    note u = url_pattern_match_Some [OF Some]
    from u(1) obtain r where r: "c # cs = u @ r" by (auto simp: prefix_def)
    have d: "drop (length u) (c # cs) = r" "drop (length u) ((c # cs) @ s) = r @ s"
      unfolding r by simp_all
    have "\<not> ends_in_url r"
      using "2.prems"(1) ends_in_url_drop [of "length u" "c # cs"] unfolding d by blast
    from "2.IH"(2) [OF Some, unfolded d, OF this "2.prems"(2,3)]
    have ih: "re_sub_url (r @ s) = re_sub_url r @ re_sub_url s" .
    have "re_sub_url ((c # cs) @ s) = anchor u @ re_sub_url (drop (length u) ((c # cs) @ s))"
      using Some m by simp
    also have "\<dots> = anchor u @ re_sub_url r @ re_sub_url s"
      by (simp only: d ih)
    also have "\<dots> = (anchor u @ re_sub_url (drop (length u) (c # cs))) @ re_sub_url s"
      by (simp only: d append_assoc)
    also have "anchor u @ re_sub_url (drop (length u) (c # cs)) = re_sub_url (c # cs)"
      using Some by simp
    finally show ?thesis .
  qed
qed

text \<open>The line-break pass changes neither the characters of a run of the class nor
  whether a text ends inside a URL.\<close>

lemma br_class:
  "list_all url_char (replace b [10] (codes ''<br>'' @ [10])) \<longleftrightarrow> list_all url_char b"
  by (induction b) (auto simp: replace_single url_char_def isspace_def codes_def)

lemma br_keep: "list_all url_char b \<Longrightarrow> replace b [10] (codes ''<br>'' @ [10]) = b"
proof -
  assume "list_all url_char b"
  moreover have "\<not> url_char 10" by (simp add: url_char_def isspace_def)
  ultimately have "\<forall>x\<in>set b. x \<noteq> 10" by (auto simp: list_all_iff)
  then show ?thesis unfolding replace_single by (rule concat_keep)
qed

lemma br_Cons:
  "replace (c # cs) [10] (codes ''<br>'' @ [10])
     = (if c = 10 then codes ''<br>'' @ [10] else [c]) @ replace cs [10] (codes ''<br>'' @ [10])"
  by (simp add: replace_single)

lemma ends_in_url_br:
  "ends_in_url (replace b [10] (codes ''<br>'' @ [10])) \<longleftrightarrow> ends_in_url b"
proof (induction b)
  case Nil
  then show ?case by (simp add: replace_single)
next
  case (Cons c cs)
  let ?br = "\<lambda>t. replace t [10] (codes ''<br>'' @ [10])"
  show ?case
  proof (cases "c = 10")
    case True
    have n: "\<not> url_char 10" by (simp add: url_char_def isspace_def)
    have "ends_in_url (?br (c # cs)) = ends_in_url (?br cs)"
      unfolding br_Cons using True n by (simp add: codes_def)
    moreover have "ends_in_url (c # cs) = ends_in_url cs"
      using True n by simp
    ultimately show ?thesis using Cons.IH by simp
  next
    case False
    show ?thesis
    proof (cases "list_all url_char cs")
      case True
      then show ?thesis using False Cons.IH by (simp add: br_Cons br_keep)
    next
      case nall: False
      then have "\<not> list_all url_char (?br cs)" by (simp add: br_class)
      with nall show ?thesis using False Cons.IH by (simp add: br_Cons)
    qed
  qed
qed

text \<open>A URL glued to the end of another one is not bare: the match that is open there
  takes it in, and the two get one anchor.\<close>

lemma glued_urls_one_anchor:
  "ends_in_url (codes ''http://a.b'')"
  "re_sub_url (codes ''http://a.bhttp://c.d'') = anchor (codes ''http://a.bhttp://c.d'')"
  by (simp_all add: codes_def url_char_def isspace_def url_pattern_match_def match_after_def)

text \<open>
  C6. \<open>convert_to_html\<close> of \<open>Visit http://example.com now\<close> is the HTML frame around
  \<open>Visit <a href="http://example.com">http://example.com</a> now\<close>: the anchor shows the
  URL, and the text before and after it is kept. In general every newline of the input
  becomes \<open><br>\<close> followed by the newline, and every bare URL is wrapped in an anchor
  whose text is the URL, while the text around it is converted on its own. A bare URL is
  \<open>http://\<close> or \<open>https://\<close> and a non-empty run of characters other than whitespace,
  angle brackets and the double quote, taken up to the first such character or the end of
  the text, and standing behind any text that does not itself end inside a URL: behind a
  parenthesis, a colon, a letter, a delimiter, or at the start.
\<close>

theorem convert_to_html_links:
  "convert_to_html (codes ''Visit http://example.com now'')
     = [10] @ codes ''        <html>'' @ [10] @ codes ''        <body>'' @ [10] @ codes ''        ''
       @ codes ''Visit <a href='' @ [34] @ codes ''http://example.com'' @ [34] @ codes ''>http://example.com</a> now''
       @ [10] @ codes ''        </body>'' @ [10] @ codes ''        </html>'' @ [10] @ codes ''        ''
   \<and> convert_to_html text
     = [10] @ codes ''        <html>'' @ [10] @ codes ''        <body>'' @ [10] @ codes ''        ''
       @ re_sub_url (concat (map (\<lambda>c. if c = 10 then codes ''<br>'' @ [10] else [c]) text))
       @ [10] @ codes ''        </body>'' @ [10] @ codes ''        </html>'' @ [10] @ codes ''        ''
   \<and> ((scheme = codes ''http://'' \<or> scheme = codes ''https://'')
        \<and> rest \<noteq> [] \<and> (\<forall>c\<in>set rest. \<not> isspace c \<and> c \<noteq> 60 \<and> c \<noteq> 62 \<and> c \<noteq> 34)
        \<and> \<not> ends_in_url before
        \<and> (after = [] \<or> \<not> url_char (hd after)) \<longrightarrow>
       convert_to_html (before @ scheme @ rest @ after)
         = [10] @ codes ''        <html>'' @ [10] @ codes ''        <body>'' @ [10] @ codes ''        ''
           @ re_sub_url (replace before [10] (codes ''<br>'' @ [10]))
           @ codes ''<a href='' @ [34] @ scheme @ rest @ [34] @ codes ''>'' @ scheme @ rest @ codes ''</a>''
           @ re_sub_url (replace after [10] (codes ''<br>'' @ [10]))
           @ [10] @ codes ''        </body>'' @ [10] @ codes ''        </html>'' @ [10] @ codes ''        '')
   \<and> (before = [] \<or> \<not> url_char (last before)
        \<or> (\<not> contains before (codes ''http://'') \<and> \<not> contains before (codes ''https://''))
        \<longrightarrow> \<not> ends_in_url before)"
proof -
  have ex: "convert_to_html (codes ''Visit http://example.com now'')
     = [10] @ codes ''        <html>'' @ [10] @ codes ''        <body>'' @ [10] @ codes ''        ''
       @ codes ''Visit <a href='' @ [34] @ codes ''http://example.com'' @ [34] @ codes ''>http://example.com</a> now''
       @ [10] @ codes ''        </body>'' @ [10] @ codes ''        </html>'' @ [10] @ codes ''        ''"
    by (simp add: convert_to_html_def codes_def replace_def url_pattern_match_def match_after_def anchor_def
          url_char_def isspace_def)
  have nl: "convert_to_html text
     = [10] @ codes ''        <html>'' @ [10] @ codes ''        <body>'' @ [10] @ codes ''        ''
       @ re_sub_url (concat (map (\<lambda>c. if c = 10 then codes ''<br>'' @ [10] else [c]) text))
       @ [10] @ codes ''        </body>'' @ [10] @ codes ''        </html>'' @ [10] @ codes ''        ''"
    by (simp add: convert_to_html_def Let_def replace_single)
  have url: "convert_to_html (before @ scheme @ rest @ after)
         = [10] @ codes ''        <html>'' @ [10] @ codes ''        <body>'' @ [10] @ codes ''        ''
           @ re_sub_url (replace before [10] (codes ''<br>'' @ [10]))
           @ codes ''<a href='' @ [34] @ scheme @ rest @ [34] @ codes ''>'' @ scheme @ rest @ codes ''</a>''
           @ re_sub_url (replace after [10] (codes ''<br>'' @ [10]))
           @ [10] @ codes ''        </body>'' @ [10] @ codes ''        </html>'' @ [10] @ codes ''        ''"
    if s: "scheme = codes ''http://'' \<or> scheme = codes ''https://''"
      and r: "rest \<noteq> []" "\<forall>c\<in>set rest. \<not> isspace c \<and> c \<noteq> 60 \<and> c \<noteq> 62 \<and> c \<noteq> 34"
      and b: "\<not> ends_in_url before"
      and a: "after = [] \<or> \<not> url_char (hd after)"
  proof -
    let ?br = "\<lambda>t. replace t [10] (codes ''<br>'' @ [10])"
    from r(2) have rc: "\<forall>c\<in>set rest. url_char c" by (simp add: url_char_def)
    have sp: "isspace 10" by (simp add: isspace_def)
    have "10 \<notin> set scheme" using s by (auto simp: codes_def)
    moreover have "10 \<notin> set rest" using r(2) sp by blast
    ultimately have "\<forall>x\<in>set (scheme @ rest). x \<noteq> 10" by auto
    then have u: "?br (scheme @ rest) = scheme @ rest"
      unfolding replace_single by (rule concat_keep)
    have split: "?br (before @ scheme @ rest @ after) = ?br before @ (scheme @ rest) @ ?br after"
      using u by (simp add: replace_single)
    have h: "(scheme @ rest) @ ?br after \<noteq> []" "hd ((scheme @ rest) @ ?br after) = 104"
      using s by (auto simp: codes_def)
    from b have "\<not> ends_in_url (?br before)" by (simp add: ends_in_url_br)
    from re_sub_url_append_open [OF this h]
    have "re_sub_url (?br before @ (scheme @ rest) @ ?br after)
          = re_sub_url (?br before) @ re_sub_url (scheme @ rest @ ?br after)"
      by simp
    also have "re_sub_url (scheme @ rest @ ?br after) = anchor (scheme @ rest) @ re_sub_url (?br after)"
      using s r(1) rc br_hd [OF a] by (rule re_sub_url_url)
    finally have fin: "re_sub_url (?br before @ (scheme @ rest) @ ?br after)
          = re_sub_url (?br before) @ anchor (scheme @ rest) @ re_sub_url (?br after)" .
    show ?thesis
      unfolding convert_to_html_def Let_def split fin by (simp add: anchor_def)
  qed
  have bare: "\<not> ends_in_url before"
    if "before = [] \<or> \<not> url_char (last before)
        \<or> (\<not> contains before (codes ''http://'') \<and> \<not> contains before (codes ''https://''))"
    using that ends_in_url_delimited [of before] ends_in_url_contains [of before] by blast
  from ex nl url bare show ?thesis by blast
qed

theorem convert_to_html_links_witness:
  "convert_to_html (codes ''Visit '' @ codes ''http://'' @ codes ''example.com'' @ codes '' now'')
     = [10] @ codes ''        <html>'' @ [10] @ codes ''        <body>'' @ [10] @ codes ''        ''
       @ codes ''Visit '' @ codes ''<a href='' @ [34] @ codes ''http://'' @ codes ''example.com'' @ [34] @ codes ''>''
       @ codes ''http://'' @ codes ''example.com'' @ codes ''</a>'' @ codes '' now''
       @ [10] @ codes ''        </body>'' @ [10] @ codes ''        </html>'' @ [10] @ codes ''        ''
   \<and> convert_to_html (codes ''('' @ codes ''http://'' @ codes ''a.b)'' @ [])
     = [10] @ codes ''        <html>'' @ [10] @ codes ''        <body>'' @ [10] @ codes ''        ''
       @ codes ''('' @ codes ''<a href='' @ [34] @ codes ''http://'' @ codes ''a.b)'' @ [34] @ codes ''>''
       @ codes ''http://'' @ codes ''a.b)'' @ codes ''</a>''
       @ [10] @ codes ''        </body>'' @ [10] @ codes ''        </html>'' @ [10] @ codes ''        ''
   \<and> convert_to_html (codes ''see:'' @ codes ''https://'' @ codes ''a.b'' @ [10] @ codes ''x=http://c.d'')
     = [10] @ codes ''        <html>'' @ [10] @ codes ''        <body>'' @ [10] @ codes ''        ''
       @ codes ''see:'' @ codes ''<a href='' @ [34] @ codes ''https://'' @ codes ''a.b'' @ [34] @ codes ''>''
       @ codes ''https://'' @ codes ''a.b'' @ codes ''</a>''
       @ codes ''<br>'' @ [10] @ codes ''x=<a href='' @ [34] @ codes ''http://c.d'' @ [34] @ codes ''>http://c.d</a>''
       @ [10] @ codes ''        </body>'' @ [10] @ codes ''        </html>'' @ [10] @ codes ''        ''"
  using convert_to_html_links [of "[]" "codes ''http://''" "codes ''example.com''" "codes ''Visit ''" "codes '' now''"]
        convert_to_html_links [of "[]" "codes ''http://''" "codes ''a.b)''" "codes ''(''" "[]"]
        convert_to_html_links [of "[]" "codes ''https://''" "codes ''a.b''" "codes ''see:''" "[10] @ codes ''x=http://c.d''"]
  by (simp add: codes_def isspace_def url_char_def replace_def url_pattern_match_def match_after_def anchor_def)

end
